theory Spec2Isabelle
  imports Complex_Main "HOL-Library.AList"
begin

section \<open>Python values and exceptions\<close>

text \<open>
  The exceptions that the code of \<^verbatim>\<open>fldb.py\<close> can raise. \<open>ClientError\<close> stands for any
  failure reported by the recognition backend.
\<close>

datatype error =
    AssertionError | KeyError | TypeError | AttributeError | ZeroDivisionError | ClientError

text \<open>
  The data exchanged with the recognition backend are JSON-like Python values. Integers
  and floats are both numbers; a float is idealised as a real number. The booleans of
  Python are the integers 0 and 1.
\<close>

datatype pyval =
    PNone
  | PStr string
  | PNum real
  | PList "pyval list"
  | PDict "(string \<times> pyval) list"

text \<open>Truth value of a Python value, as tested by \<^verbatim>\<open>if v\<close> and \<^verbatim>\<open>not v\<close>.\<close>

fun py_truth :: "pyval \<Rightarrow> bool" where
  "py_truth PNone = False"
| "py_truth (PStr s) = (s \<noteq> [])"
| "py_truth (PNum r) = (r \<noteq> 0)"
| "py_truth (PList xs) = (xs \<noteq> [])"
| "py_truth (PDict d) = (d \<noteq> [])"

text \<open>Only hashable values are accepted as dictionary keys; lists and dicts are not.\<close>

fun py_hashable :: "pyval \<Rightarrow> bool" where
  "py_hashable (PList xs) = False"
| "py_hashable (PDict d) = False"
| "py_hashable v = True"

text \<open>\<^verbatim>\<open>v[k]\<close> for a string key \<open>k\<close>: only a dict can be subscripted by a string.\<close>

fun py_subscript :: "pyval \<Rightarrow> string \<Rightarrow> error + pyval" where
  "py_subscript (PDict d) k = (case map_of d k of None \<Rightarrow> Inl KeyError | Some v \<Rightarrow> Inr v)"
| "py_subscript v k = Inl TypeError"

text \<open>
  \<^verbatim>\<open>for x in v\<close>: a list yields its elements, a dict its keys, a string its characters;
  numbers and \<^verbatim>\<open>None\<close> are not iterable.
\<close>

fun py_iter :: "pyval \<Rightarrow> error + pyval list" where
  "py_iter (PList xs) = Inr xs"
| "py_iter (PDict d) = Inr (map PStr (remdups (map fst d)))"
| "py_iter (PStr s) = Inr (map (\<lambda>c. PStr [c]) s)"
| "py_iter v = Inl TypeError"

text \<open>\<^verbatim>\<open>v / 100.0\<close>: defined on numbers only.\<close>

fun py_truediv :: "pyval \<Rightarrow> real \<Rightarrow> error + real" where
  "py_truediv (PNum r) d = (if d = 0 then Inl ZeroDivisionError else Inr (r / d))"
| "py_truediv v d = Inl TypeError"

subsection \<open>Dictionaries\<close>

text \<open>
  A Python dict keeps its keys in insertion order; assigning to a key that is present
  keeps the key's position. This is \<^const>\<open>AList.update\<close> on an association list.
\<close>

type_synonym ('k, 'v) dict = "('k \<times> 'v) list"

definition dict_contains :: "('k, 'v) dict \<Rightarrow> 'k \<Rightarrow> bool" where
  "dict_contains d k = (map_of d k \<noteq> None)"

definition dict_keys :: "('k, 'v) dict \<Rightarrow> 'k list" where
  "dict_keys d = map fst d"

definition dict_values :: "('k, 'v) dict \<Rightarrow> 'v list" where
  "dict_values d = map snd d"

text \<open>\<^verbatim>\<open>d.update(e)\<close>: the items of \<open>e\<close> are assigned in order.\<close>

definition dict_update :: "('k, 'v) dict \<Rightarrow> ('k, 'v) dict \<Rightarrow> ('k, 'v) dict" where
  "dict_update d e = fold (\<lambda>(k, v) acc. AList.update k v acc) e d"

text \<open>
  \<^verbatim>\<open>sorted(vs, key=lambda x: x[1], reverse=True)\<close>: a stable sort in descending order of
  the second component (elements with equal keys keep their original order).
\<close>

definition sorted_reverse :: "('a \<times> real) list \<Rightarrow> ('a \<times> real) list" where
  "sorted_reverse vs = sort_key (\<lambda>x. - snd x) vs"

section \<open>The object store\<close>

text \<open>
  Objects are mutable and shared, so they live in a store and are referred to by their
  index. There is one store per class; an object is never removed from it. The fields
  keep the names of the attributes, except \<open>f_image\<close> for the image of a face, \<open>i_faces\<close>
  for the faces of an image and \<open>p_faces\<close> for the faces of a person. The attribute
  \<^verbatim>\<open>db\<close> is the one database and is left out.
\<close>

type_synonym face_ref = nat
type_synonym image_ref = nat
type_synonym person_ref = nat

record Face =
  fid :: pyval
  fulldata :: pyval
  f_image :: image_ref
  similar :: "(face_ref \<times> real) list option"
  person :: "person_ref option"

record Image =
  url :: pyval
  i_faces :: "face_ref list option"

record Person =
  name :: string
  p_faces :: "face_ref list"

text \<open>
  A request sent to the recognition backend. The collection and the bucket are fixed when
  the database is created and are left out. \<open>IndexFacesReq\<close> carries the URL, which line
  85 passes as the name of the object and line 87 as \<^verbatim>\<open>ExtermalImageId\<close>; \<open>SearchFacesReq\<close>
  carries the identifier of the face; \<open>ListFacesReq\<close> carries the optional page token of the
  backend's interface.
\<close>

datatype request =
    IndexFacesReq pyval
  | SearchFacesReq pyval
  | ListFacesReq "pyval option"
  | CreateCollectionReq
  | DeleteCollectionReq

text \<open>
  The backend is a parameter: it answers a request, possibly depending on the requests
  made before, with a response or with an exception.
\<close>

type_synonym rekog = "request list \<Rightarrow> request \<Rightarrow> error + pyval"

record FLDB =
  persons :: "(string, person_ref) dict"
  images :: "(pyval, image_ref) dict"
  faces :: "(pyval, face_ref) dict"
  face_heap :: "Face list"
  image_heap :: "Image list"
  person_heap :: "Person list"
  rekog_calls :: "request list"

definition FLDB_init :: FLDB where
  "FLDB_init = \<lparr>persons = [], images = [], faces = [], face_heap = [], image_heap = [],
     person_heap = [], rekog_calls = []\<rparr>"

section \<open>Computations that change the store and may raise\<close>

text \<open>
  A method is a function from the state before to its outcome (an exception or a value)
  and the state after. An exception does not undo the changes made before it.
\<close>

type_synonym 'a M = "FLDB \<Rightarrow> (error + 'a) \<times> FLDB"

definition ret :: "'a \<Rightarrow> 'a M" where
  "ret x = (\<lambda>s. (Inr x, s))"

definition raise :: "error \<Rightarrow> 'a M" where
  "raise e = (\<lambda>s. (Inl e, s))"

definition mbind :: "'a M \<Rightarrow> ('a \<Rightarrow> 'b M) \<Rightarrow> 'b M" where
  "mbind m f = (\<lambda>s. case m s of (Inl e, s') \<Rightarrow> (Inl e, s') | (Inr x, s') \<Rightarrow> f x s')"

definition lift :: "error + 'a \<Rightarrow> 'a M" where
  "lift r = (\<lambda>s. (r, s))"

definition gets :: "(FLDB \<Rightarrow> 'a) \<Rightarrow> 'a M" where
  "gets f = (\<lambda>s. (Inr (f s), s))"

definition modify :: "(FLDB \<Rightarrow> FLDB) \<Rightarrow> unit M" where
  "modify f = (\<lambda>s. (Inr (), f s))"

text \<open>The statement \<^verbatim>\<open>assert b\<close>, with assertions enabled as they are by default.\<close>

definition py_assert :: "bool \<Rightarrow> unit M" where
  "py_assert b = (if b then ret () else raise AssertionError)"

text \<open>A comprehension or \<^verbatim>\<open>for\<close> loop over a list: the first exception ends it.\<close>

fun mapM :: "('a \<Rightarrow> 'b M) \<Rightarrow> 'a list \<Rightarrow> 'b list M" where
  "mapM f [] = ret []"
| "mapM f (x # xs) = mbind (f x) (\<lambda>y. mbind (mapM f xs) (\<lambda>ys. ret (y # ys)))"

text \<open>A comprehension with a condition: \<^verbatim>\<open>[f(x) for x in xs if c(x)]\<close>.\<close>

fun filter_mapM :: "('a \<Rightarrow> bool M) \<Rightarrow> ('a \<Rightarrow> 'b M) \<Rightarrow> 'a list \<Rightarrow> 'b list M" where
  "filter_mapM c f [] = ret []"
| "filter_mapM c f (x # xs) =
     mbind (c x) (\<lambda>b.
       if b then mbind (f x) (\<lambda>y. mbind (filter_mapM c f xs) (\<lambda>ys. ret (y # ys)))
       else filter_mapM c f xs)"

text \<open>A \<^verbatim>\<open>for\<close> loop that updates a local variable.\<close>

fun foldM :: "('a \<Rightarrow> 'b \<Rightarrow> 'b M) \<Rightarrow> 'a list \<Rightarrow> 'b \<Rightarrow> 'b M" where
  "foldM f [] acc = ret acc"
| "foldM f (x # xs) acc = mbind (f x acc) (\<lambda>acc'. foldM f xs acc')"

text \<open>
  Use of a value as a dictionary key: it is hashed first, which fails on a list or dict.
  \<open>key_in\<close> is \<^verbatim>\<open>k in d\<close>, \<open>dict_getitem\<close> is \<^verbatim>\<open>d[k]\<close>, \<open>dict_setitem\<close> is \<^verbatim>\<open>d[k] = v\<close>.
\<close>

definition hash_key :: "pyval \<Rightarrow> error + unit" where
  "hash_key k = (if py_hashable k then Inr () else Inl TypeError)"

definition key_in :: "pyval \<Rightarrow> (pyval, 'v) dict \<Rightarrow> error + bool" where
  "key_in k d = (if py_hashable k then Inr (dict_contains d k) else Inl TypeError)"

definition dict_getitem :: "(pyval, 'v) dict \<Rightarrow> pyval \<Rightarrow> error + 'v" where
  "dict_getitem d k =
     (if py_hashable k then (case map_of d k of None \<Rightarrow> Inl KeyError | Some v \<Rightarrow> Inr v)
      else Inl TypeError)"

definition dict_setitem :: "(pyval, 'v) dict \<Rightarrow> pyval \<Rightarrow> 'v \<Rightarrow> error + (pyval, 'v) dict" where
  "dict_setitem d k v = (if py_hashable k then Inr (AList.update k v d) else Inl TypeError)"

text \<open>A call of the backend: the request is recorded, then answered.\<close>

definition call_rekog :: "rekog \<Rightarrow> request \<Rightarrow> pyval M" where
  "call_rekog rk req =
     (\<lambda>s. (rk (rekog_calls s) req, s\<lparr>rekog_calls := rekog_calls s @ [req]\<rparr>))"

section \<open>class FLDB, first part: persons and images\<close>

text \<open>\<^verbatim>\<open>Person(name)\<close>: a new object with no faces.\<close>

definition Person_init :: "string \<Rightarrow> person_ref M" where
  "Person_init nm =
     (\<lambda>s. (Inr (length (person_heap s)),
            s\<lparr>person_heap := person_heap s @ [\<lparr>name = nm, p_faces = []\<rparr>]\<rparr>))"

text \<open>\<^verbatim>\<open>FLDB.add_person\<close>, lines 21 to 26.\<close>

definition add_person :: "string \<Rightarrow> person_ref M" where
  "add_person nm =
     mbind (gets persons) (\<lambda>ps.
     mbind (py_assert (\<not> dict_contains ps nm)) (\<lambda>_.
     mbind (Person_init nm) (\<lambda>p.
     mbind (modify (\<lambda>s. s\<lparr>persons := AList.update nm p (persons s)\<rparr>)) (\<lambda>_.
     ret p))))"

text \<open>\<^verbatim>\<open>FLDB.get_person\<close>, lines 27 to 31.\<close>

definition get_person :: "string \<Rightarrow> bool \<Rightarrow> person_ref M" where
  "get_person nm create =
     mbind (gets persons) (\<lambda>ps.
       if create \<and> \<not> dict_contains ps nm then add_person nm
       else (case map_of ps nm of None \<Rightarrow> raise KeyError | Some p \<Rightarrow> ret p))"

text \<open>\<^verbatim>\<open>Image(db, url)\<close>: a new object whose faces are not yet known.\<close>

definition Image_init :: "pyval \<Rightarrow> image_ref M" where
  "Image_init u =
     (\<lambda>s. (Inr (length (image_heap s)),
            s\<lparr>image_heap := image_heap s @ [\<lparr>url = u, i_faces = None\<rparr>]\<rparr>))"

text \<open>
  \<^verbatim>\<open>FLDB.add_image(url, index=False)\<close>, lines 32 to 40 with the branch \<^verbatim>\<open>if index\<close> not
  taken. It is defined first because \<^verbatim>\<open>Face.__init__\<close> reaches it through
  \<^verbatim>\<open>get_image\<close>; \<open>add_image\<close> below is the whole method.
\<close>

definition add_image_unindexed :: "pyval \<Rightarrow> image_ref M" where
  "add_image_unindexed u =
     mbind (gets images) (\<lambda>im.
     mbind (lift (key_in u im)) (\<lambda>present.
     mbind (py_assert (\<not> present)) (\<lambda>_.
     mbind (Image_init u) (\<lambda>i.
     mbind (modify (\<lambda>s. s\<lparr>images := AList.update u i (images s)\<rparr>)) (\<lambda>_.
     ret i)))))"

text \<open>\<^verbatim>\<open>FLDB.get_image\<close>, lines 41 to 46.\<close>

definition get_image :: "pyval \<Rightarrow> bool \<Rightarrow> image_ref M" where
  "get_image u create =
     mbind (gets images) (\<lambda>im.
     mbind (if create then mbind (lift (key_in u im)) (\<lambda>present. ret (\<not> present))
            else ret False) (\<lambda>absent.
       if absent then add_image_unindexed u else lift (dict_getitem im u)))"

section \<open>class Face: construction\<close>

text \<open>
  \<^verbatim>\<open>Face(db, fulldata, image=None)\<close>, lines 119 to 129. An Image object is always true,
  so \<^verbatim>\<open>if image\<close> tests whether the argument was given.
\<close>

definition Face_new :: "Face \<Rightarrow> face_ref M" where
  "Face_new obj = (\<lambda>s. (Inr (length (face_heap s)), s\<lparr>face_heap := face_heap s @ [obj]\<rparr>))"

definition Face_init :: "pyval \<Rightarrow> image_ref option \<Rightarrow> face_ref M" where
  "Face_init fd img =
     mbind (lift (py_subscript fd ''Face'')) (\<lambda>fc.
     mbind (lift (py_subscript fc ''FaceId'')) (\<lambda>fi.
     mbind (case img of
              Some i \<Rightarrow> ret i
            | None \<Rightarrow>
                mbind (lift (py_subscript fd ''Face'')) (\<lambda>fc'.
                mbind (lift (py_subscript fc' ''ExternalImageId'')) (\<lambda>u.
                get_image u True))) (\<lambda>i.
     Face_new \<lparr>fid = fi, fulldata = fd, f_image = i, similar = None, person = None\<rparr>)))"

section \<open>class FLDB, second part: faces and the backend\<close>

text \<open>\<^verbatim>\<open>FLDB._index_faces\<close> and \<^verbatim>\<open>FLDB.index_faces\<close>, lines 80 to 90.\<close>

definition index_faces_inner :: "rekog \<Rightarrow> pyval \<Rightarrow> pyval M" where
  "index_faces_inner rk u =
     mbind (call_rekog rk (IndexFacesReq u)) (\<lambda>resp.
     lift (py_subscript resp ''FaceRecords''))"

definition index_faces :: "rekog \<Rightarrow> image_ref \<Rightarrow> face_ref list M" where
  "index_faces rk i =
     mbind (gets (\<lambda>s. url (image_heap s ! i))) (\<lambda>u.
     mbind (index_faces_inner rk u) (\<lambda>recs.
     mbind (lift (py_iter recs)) (\<lambda>xs.
     mapM (\<lambda>x. Face_init x None) xs)))"

section \<open>class Image\<close>

definition set_i_faces :: "image_ref \<Rightarrow> face_ref list \<Rightarrow> unit M" where
  "set_i_faces i fs =
     modify (\<lambda>s. s\<lparr>image_heap := (image_heap s)[i := (image_heap s ! i)\<lparr>i_faces := Some fs\<rparr>]\<rparr>)"

text \<open>
  \<^verbatim>\<open>Image.get_faces\<close>, lines 107 to 111. \<^verbatim>\<open>if self.faces\<close> is false for \<^verbatim>\<open>None\<close> and
  for the empty list.
\<close>

definition Image_get_faces :: "rekog \<Rightarrow> image_ref \<Rightarrow> face_ref list M" where
  "Image_get_faces rk i =
     mbind (gets (\<lambda>s. i_faces (image_heap s ! i))) (\<lambda>cached.
       case cached of
         Some (f # fs) \<Rightarrow> ret (f # fs)
       | _ \<Rightarrow> mbind (index_faces rk i) (\<lambda>new.
              mbind (set_i_faces i new) (\<lambda>_.
              ret new)))"

section \<open>class FLDB, third part\<close>

text \<open>
  A dict comprehension \<^verbatim>\<open>{x.fid: v(x) for x in fs}\<close> over Face objects: every key is
  hashed, a later item replaces an earlier one with the same key.
\<close>

definition by_fid :: "(face_ref \<Rightarrow> 'v) \<Rightarrow> face_ref list \<Rightarrow> (pyval, 'v) dict M" where
  "by_fid v fs =
     foldM (\<lambda>x d. mbind (gets (\<lambda>s. fid (face_heap s ! x))) (\<lambda>k.
                   lift (dict_setitem d k (v x)))) fs []"

text \<open>\<^verbatim>\<open>FLDB.add_image\<close>, lines 32 to 40.\<close>

definition add_image :: "rekog \<Rightarrow> pyval \<Rightarrow> bool \<Rightarrow> image_ref M" where
  "add_image rk u index =
     mbind (gets images) (\<lambda>im.
     mbind (lift (key_in u im)) (\<lambda>present.
     mbind (py_assert (\<not> present)) (\<lambda>_.
     mbind (Image_init u) (\<lambda>i.
     mbind (modify (\<lambda>s. s\<lparr>images := AList.update u i (images s)\<rparr>)) (\<lambda>_.
     mbind (if index then
              mbind (Image_get_faces rk i) (\<lambda>fs.
              mbind (by_fid (\<lambda>x. x) fs) (\<lambda>d.
              modify (\<lambda>s. s\<lparr>faces := dict_update (faces s) d\<rparr>)))
            else ret ()) (\<lambda>_.
     ret i))))))"

text \<open>
  \<^verbatim>\<open>FLDB.get_face\<close>, lines 47 to 54. The arguments \<open>fid\<close> and \<open>data\<close> default to
  \<^verbatim>\<open>None\<close>.
\<close>

definition get_face :: "pyval \<Rightarrow> pyval \<Rightarrow> bool \<Rightarrow> face_ref M" where
  "get_face fid0 data create =
     mbind (if \<not> py_truth fid0 then lift (py_subscript data ''FaceId'') else ret fid0) (\<lambda>k.
     mbind (if create \<and> py_truth data then
              mbind (gets faces) (\<lambda>fs.
              mbind (lift (key_in k fs)) (\<lambda>present.
                if \<not> present then
                  mbind (Face_init data None) (\<lambda>f.
                  mbind (gets faces) (\<lambda>fs'.
                  mbind (lift (dict_setitem fs' k f)) (\<lambda>fs''.
                  modify (\<lambda>s. s\<lparr>faces := fs''\<rparr>))))
                else ret ()))
            else ret ()) (\<lambda>_.
     mbind (gets faces) (\<lambda>fs.
     lift (dict_getitem fs k))))"

text \<open>
  \<^verbatim>\<open>FLDB.list_faces\<close>, lines 55 to 61. The backend is called once, without a page
  token, and its response is iterated as it is.
\<close>

definition list_faces :: "rekog \<Rightarrow> bool \<Rightarrow> pyval list M" where
  "list_faces rk refresh =
     mbind (if refresh then
              mbind (call_rekog rk (ListFacesReq None)) (\<lambda>resp.
              mbind (lift (py_iter resp)) (\<lambda>xs.
              mbind (foldM (\<lambda>x d. mbind (lift (py_subscript x ''FaceId'')) (\<lambda>k.
                                   mbind (Face_init x None) (\<lambda>f.
                                   lift (dict_setitem d k f)))) xs []) (\<lambda>d.
              modify (\<lambda>s. s\<lparr>faces := d\<rparr>))))
            else ret ()) (\<lambda>_.
     mbind (gets faces) (\<lambda>fs.
     ret (dict_keys fs)))"

text \<open>\<^verbatim>\<open>FLDB.list_images\<close> and \<^verbatim>\<open>FLDB.list_persons\<close>, lines 62 to 67.\<close>

definition list_images :: "pyval list M" where
  "list_images = mbind (gets images) (\<lambda>im. ret (dict_keys im))"

definition list_persons :: "string list M" where
  "list_persons = mbind (gets persons) (\<lambda>ps. ret (dict_keys ps))"

text \<open>\<^verbatim>\<open>FLDB.create_all\<close> and \<^verbatim>\<open>FLDB.delete_all\<close>, lines 68 to 73.\<close>

definition create_all :: "rekog \<Rightarrow> pyval M" where
  "create_all rk =
     mbind (call_rekog rk CreateCollectionReq) (\<lambda>resp.
     lift (py_subscript resp ''CollectionArn''))"

definition delete_all :: "rekog \<Rightarrow> unit M" where
  "delete_all rk = mbind (call_rekog rk DeleteCollectionReq) (\<lambda>_. ret ())"

text \<open>\<^verbatim>\<open>FLDB._search_faces\<close> and \<^verbatim>\<open>FLDB.search_faces\<close>, lines 91 to 96.\<close>

definition search_faces_inner :: "rekog \<Rightarrow> pyval \<Rightarrow> pyval M" where
  "search_faces_inner rk k =
     mbind (call_rekog rk (SearchFacesReq k)) (\<lambda>resp.
     lift (py_subscript resp ''FaceMatches''))"

definition search_faces :: "rekog \<Rightarrow> face_ref \<Rightarrow> (face_ref \<times> real) list M" where
  "search_faces rk f =
     mbind (gets (\<lambda>s. fid (face_heap s ! f))) (\<lambda>k.
     mbind (search_faces_inner rk k) (\<lambda>ms.
     mbind (lift (py_iter ms)) (\<lambda>xs.
     mapM (\<lambda>x. mbind (lift (py_subscript x ''Face'')) (\<lambda>d.
               mbind (get_face PNone d True) (\<lambda>g.
               mbind (lift (py_subscript x ''Similarity'')) (\<lambda>sim.
               mbind (lift (py_truediv sim 100)) (\<lambda>r.
               ret (g, r)))))) xs)))"

section \<open>class Face: methods\<close>

definition set_similar :: "face_ref \<Rightarrow> (face_ref \<times> real) list \<Rightarrow> unit M" where
  "set_similar f xs =
     modify (\<lambda>s. s\<lparr>face_heap := (face_heap s)[f := (face_heap s ! f)\<lparr>similar := Some xs\<rparr>]\<rparr>)"

text \<open>\<^verbatim>\<open>Face.get_similar\<close>, lines 130 to 134.\<close>

definition Face_get_similar :: "rekog \<Rightarrow> face_ref \<Rightarrow> bool \<Rightarrow> (face_ref \<times> real) list M" where
  "Face_get_similar rk f refresh =
     mbind (gets (\<lambda>s. similar (face_heap s ! f))) (\<lambda>cached.
       case (if refresh then None else cached) of
         None \<Rightarrow>
           mbind (search_faces rk f) (\<lambda>new.
           mbind (set_similar f new) (\<lambda>_.
           ret new))
       | Some xs \<Rightarrow> ret xs)"

text \<open>\<^verbatim>\<open>Face.get_image\<close>, lines 135 to 137.\<close>

definition Face_get_image :: "face_ref \<Rightarrow> image_ref M" where
  "Face_get_image f = gets (\<lambda>s. f_image (face_heap s ! f))"

text \<open>\<^verbatim>\<open>Face._set_person\<close> and \<^verbatim>\<open>Person._add_face\<close>, lines 138, 139, 155 and 156.\<close>

definition Face_set_person_inner :: "face_ref \<Rightarrow> person_ref \<Rightarrow> unit M" where
  "Face_set_person_inner f p =
     modify (\<lambda>s. s\<lparr>face_heap := (face_heap s)[f := (face_heap s ! f)\<lparr>person := Some p\<rparr>]\<rparr>)"

definition Person_add_face_inner :: "person_ref \<Rightarrow> face_ref \<Rightarrow> unit M" where
  "Person_add_face_inner p f =
     modify (\<lambda>s. s\<lparr>person_heap :=
       (person_heap s)[p := (person_heap s ! p)\<lparr>p_faces := p_faces (person_heap s ! p) @ [f]\<rparr>]\<rparr>)"

text \<open>\<^verbatim>\<open>Face.set_person\<close>, lines 140 to 143.\<close>

definition Face_set_person :: "face_ref \<Rightarrow> person_ref \<Rightarrow> unit M" where
  "Face_set_person f p =
     mbind (Face_set_person_inner f p) (\<lambda>_. Person_add_face_inner p f)"

text \<open>
  A Face object has the attributes \<^verbatim>\<open>fid\<close>, \<^verbatim>\<open>fulldata\<close>, \<^verbatim>\<open>db\<close>, \<^verbatim>\<open>image\<close>,
  \<^verbatim>\<open>similar\<close> and \<^verbatim>\<open>person\<close> and its methods. Line 147 reads \<^verbatim>\<open>persom\<close>, which no
  Face has: the read raises.
\<close>

definition Face_persom :: "face_ref \<Rightarrow> bool M" where
  "Face_persom f = raise AttributeError"

text \<open>
  \<^verbatim>\<open>Face.get_person\<close>, lines 144 to 147. A Person object is always true, so
  \<^verbatim>\<open>if self.person\<close> tests whether the face is confirmed. The score of a confirmed face
  is the integer 1. \<^verbatim>\<open>get_similar()\<close> is called without arguments, so the backend that
  it may ask is a parameter here too.
\<close>

definition Face_get_person :: "rekog \<Rightarrow> face_ref \<Rightarrow> (person_ref option \<times> real) list M" where
  "Face_get_person rk f =
     mbind (gets (\<lambda>s. person (face_heap s ! f))) (\<lambda>pn.
       case pn of
         Some p \<Rightarrow> ret [(Some p, 1)]
       | None \<Rightarrow>
           mbind (Face_get_similar rk f False) (\<lambda>sims.
           filter_mapM (\<lambda>x. Face_persom (fst x))
             (\<lambda>x. mbind (gets (\<lambda>s. person (face_heap s ! fst x))) (\<lambda>q. ret (q, snd x)))
             sims))"

section \<open>class Person: methods\<close>

text \<open>\<^verbatim>\<open>Person.add_face\<close>, lines 157 to 160.\<close>

definition Person_add_face :: "person_ref \<Rightarrow> face_ref \<Rightarrow> unit M" where
  "Person_add_face p f =
     mbind (Person_add_face_inner p f) (\<lambda>_. Face_set_person_inner f p)"

text \<open>
  An element of a similarity list is a tuple \<^verbatim>\<open>(Face, similarity)\<close>. Lines 166 and 170
  read the attributes \<^verbatim>\<open>person\<close> and \<^verbatim>\<open>fid\<close> of such a tuple, which a tuple does not
  have: the read raises.
\<close>

definition tuple_person :: "face_ref \<times> real \<Rightarrow> bool M" where
  "tuple_person x = raise AttributeError"

definition tuple_fid :: "face_ref \<times> real \<Rightarrow> pyval M" where
  "tuple_fid x = raise AttributeError"

text \<open>
  The first part of \<^verbatim>\<open>Person.get_faces\<close>, lines 162 to 172: the dict of guesses, empty
  when \<open>guess\<close> is false. The loop of lines 171 and 172 divides every sum by the number of
  confirmed faces and assigns the quotient to its loop variable only, so that the dict
  keeps the sums.
\<close>

definition guess_faces ::
    "rekog \<Rightarrow> person_ref \<Rightarrow> bool \<Rightarrow> bool \<Rightarrow> (pyval, face_ref \<times> real) dict M" where
  "guess_faces rk p guess refresh =
     (if guess then
        mbind (gets (\<lambda>s. p_faces (person_heap s ! p))) (\<lambda>confirmed_faces.
        mbind (foldM (\<lambda>confirmed d.
                 mbind (Face_get_similar rk confirmed refresh) (\<lambda>sims.
                 mbind (filter_mapM (\<lambda>x. mbind (tuple_person x) (\<lambda>b. ret (\<not> b))) ret sims)
                   (\<lambda>similar_unconfirmed.
                 foldM (\<lambda>sim d'.
                   mbind (gets (\<lambda>s. fid (face_heap s ! fst sim))) (\<lambda>k.
                   mbind (lift (hash_key k)) (\<lambda>_.
                   mbind (ret (case map_of d' k of None \<Rightarrow> (fst sim, 0) | Some v \<Rightarrow> v)) (\<lambda>old.
                   mbind (tuple_fid sim) (\<lambda>k'.
                   lift (dict_setitem d' k' (fst old, snd old + snd sim)))))))
                   similar_unconfirmed d)))
               confirmed_faces []) (\<lambda>d.
        mbind (mapM (\<lambda>thisguess.
                 mbind (gets (\<lambda>s. length (p_faces (person_heap s ! p)))) (\<lambda>n.
                 mbind (lift (py_truediv (PNum (snd thisguess)) (real n))) (\<lambda>q.
                 ret (fst thisguess, q))))
               (dict_values d)) (\<lambda>_.
        ret d)))
      else ret [])"

text \<open>\<^verbatim>\<open>Person.get_faces\<close>, lines 161 to 176.\<close>

definition Person_get_faces ::
    "rekog \<Rightarrow> person_ref \<Rightarrow> bool \<Rightarrow> bool \<Rightarrow> (face_ref \<times> real) list M" where
  "Person_get_faces rk p guess refresh =
     mbind (guess_faces rk p guess refresh) (\<lambda>d.
     mbind (gets (\<lambda>s. p_faces (person_heap s ! p))) (\<lambda>confirmed_faces.
     mbind (by_fid (\<lambda>x. (x, 1)) confirmed_faces) (\<lambda>known.
     ret (sorted_reverse (dict_values (dict_update d known))))))"

section \<open>Sequences of operations\<close>

text \<open>
  The public methods of the four classes, as operations on the state. The methods whose
  name starts with an underscore are internal and are not operations of their own.
\<close>

datatype op =
    AddPerson string
  | GetPerson string bool
  | AddImage pyval bool
  | GetImage pyval bool
  | GetFace pyval pyval bool
  | ListFaces bool
  | ListImages
  | ListPersons
  | CreateAll
  | DeleteAll
  | IndexFaces image_ref
  | SearchFaces face_ref
  | ImageGetFaces image_ref
  | FaceGetSimilar face_ref bool
  | FaceGetImage face_ref
  | FaceSetPerson face_ref person_ref
  | FaceGetPerson face_ref
  | PersonAddFace person_ref face_ref
  | PersonGetFaces person_ref bool bool

text \<open>The state after an operation, whether it returned or raised.\<close>

fun step :: "rekog \<Rightarrow> op \<Rightarrow> FLDB \<Rightarrow> FLDB" where
  "step rk (AddPerson nm) s = snd (add_person nm s)"
| "step rk (GetPerson nm c) s = snd (get_person nm c s)"
| "step rk (AddImage u ix) s = snd (add_image rk u ix s)"
| "step rk (GetImage u c) s = snd (get_image u c s)"
| "step rk (GetFace k d c) s = snd (get_face k d c s)"
| "step rk (ListFaces rf) s = snd (list_faces rk rf s)"
| "step rk ListImages s = snd (list_images s)"
| "step rk ListPersons s = snd (list_persons s)"
| "step rk CreateAll s = snd (create_all rk s)"
| "step rk DeleteAll s = snd (delete_all rk s)"
| "step rk (IndexFaces i) s = snd (index_faces rk i s)"
| "step rk (SearchFaces f) s = snd (search_faces rk f s)"
| "step rk (ImageGetFaces i) s = snd (Image_get_faces rk i s)"
| "step rk (FaceGetSimilar f rf) s = snd (Face_get_similar rk f rf s)"
| "step rk (FaceGetImage f) s = snd (Face_get_image f s)"
| "step rk (FaceSetPerson f p) s = snd (Face_set_person f p s)"
| "step rk (FaceGetPerson f) s = snd (Face_get_person rk f s)"
| "step rk (PersonAddFace p f) s = snd (Person_add_face p f s)"
| "step rk (PersonGetFaces p g rf) s = snd (Person_get_faces rk p g rf s)"

definition steps :: "rekog \<Rightarrow> op list \<Rightarrow> FLDB \<Rightarrow> FLDB" where
  "steps rk ops s = fold (step rk) ops s"

text \<open>
  A caller can only pass objects that exist. With \<open>once\<close> set, a face is moreover never
  confirmed to a person other than the one it is already confirmed to.
\<close>

fun op_ok :: "bool \<Rightarrow> FLDB \<Rightarrow> op \<Rightarrow> bool" where
  "op_ok once s (FaceSetPerson f p) =
     (f < length (face_heap s) \<and> p < length (person_heap s) \<and>
      (once \<longrightarrow> person (face_heap s ! f) \<in> {None, Some p}))"
| "op_ok once s (PersonAddFace p f) =
     (f < length (face_heap s) \<and> p < length (person_heap s) \<and>
      (once \<longrightarrow> person (face_heap s ! f) \<in> {None, Some p}))"
| "op_ok once s (IndexFaces i) = (i < length (image_heap s))"
| "op_ok once s (ImageGetFaces i) = (i < length (image_heap s))"
| "op_ok once s (SearchFaces f) = (f < length (face_heap s))"
| "op_ok once s (FaceGetSimilar f rf) = (f < length (face_heap s))"
| "op_ok once s (FaceGetImage f) = (f < length (face_heap s))"
| "op_ok once s (FaceGetPerson f) = (f < length (face_heap s))"
| "op_ok once s (PersonGetFaces p g rf) = (p < length (person_heap s))"
| "op_ok once s other = True"

inductive reachable :: "rekog \<Rightarrow> bool \<Rightarrow> FLDB \<Rightarrow> bool"
  for rk :: rekog and once :: bool where
  init: "reachable rk once FLDB_init"
| step: "reachable rk once s \<Longrightarrow> op_ok once s op \<Longrightarrow> reachable rk once (step rk op s)"

text \<open>Every operation of a sequence is allowed in the state in which it is made.\<close>

fun ops_ok :: "rekog \<Rightarrow> bool \<Rightarrow> FLDB \<Rightarrow> op list \<Rightarrow> bool" where
  "ops_ok rk once s [] = True"
| "ops_ok rk once s (x # xs) = (op_ok once s x \<and> ops_ok rk once (step rk x s) xs)"

text \<open>Both sides of a confirmation applied to a state.\<close>

definition confirm :: "face_ref \<Rightarrow> person_ref \<Rightarrow> FLDB \<Rightarrow> FLDB" where
  "confirm f p s =
     s\<lparr>face_heap := (face_heap s)[f := (face_heap s ! f)\<lparr>person := Some p\<rparr>],
       person_heap := (person_heap s)[p := (person_heap s ! p)
                        \<lparr>p_faces := p_faces (person_heap s ! p) @ [f]\<rparr>]\<rparr>"

section \<open>Relations between the state before and after\<close>

text \<open>
  \<open>preserves R m\<close>: whatever the outcome of \<open>m\<close>, the state after it is related by \<open>R\<close> to the
  state before it.
\<close>

definition preserves :: "(FLDB \<Rightarrow> FLDB \<Rightarrow> bool) \<Rightarrow> 'a M \<Rightarrow> bool" where
  "preserves R m = (\<forall>s. R s (snd (m s)))"

definition stable :: "(FLDB \<Rightarrow> FLDB \<Rightarrow> bool) \<Rightarrow> bool" where
  "stable R = ((\<forall>s. R s s) \<and> (\<forall>s t u. R s t \<longrightarrow> R t u \<longrightarrow> R s u))"

text \<open>
  A relation that admits every change the methods make to the store, apart from a
  confirmation, a new person and a call of the backend.
\<close>

definition quiet_frame :: "(FLDB \<Rightarrow> FLDB \<Rightarrow> bool) \<Rightarrow> bool" where
  "quiet_frame R =
     (stable R \<and>
      (\<forall>s obj. similar obj = None \<and> person obj = None \<longrightarrow>
         R s (s\<lparr>face_heap := face_heap s @ [obj]\<rparr>)) \<and>
      (\<forall>s obj. R s (s\<lparr>image_heap := image_heap s @ [obj]\<rparr>)) \<and>
      (\<forall>s d. R s (s\<lparr>images := d\<rparr>)) \<and>
      (\<forall>s d. R s (s\<lparr>faces := d\<rparr>)) \<and>
      (\<forall>s i fs. R s (s\<lparr>image_heap :=
         (image_heap s)[i := (image_heap s ! i)\<lparr>i_faces := Some fs\<rparr>]\<rparr>)) \<and>
      (\<forall>s f xs. R s (s\<lparr>face_heap :=
         (face_heap s)[f := (face_heap s ! f)\<lparr>similar := Some xs\<rparr>]\<rparr>)))"

definition frame :: "(FLDB \<Rightarrow> FLDB \<Rightarrow> bool) \<Rightarrow> bool" where
  "frame R = (quiet_frame R \<and> (\<forall>s req. R s (s\<lparr>rekog_calls := rekog_calls s @ [req]\<rparr>)))"

text \<open>No call of the backend was made.\<close>

definition no_call :: "FLDB \<Rightarrow> FLDB \<Rightarrow> bool" where
  "no_call s t = (rekog_calls t = rekog_calls s)"

text \<open>Faces stay, and a similarity list that is set stays set.\<close>

definition keeps :: "FLDB \<Rightarrow> FLDB \<Rightarrow> bool" where
  "keeps s t =
     (length (face_heap s) \<le> length (face_heap t) \<and>
      (\<forall>f<length (face_heap s). similar (face_heap s ! f) \<noteq> None \<longrightarrow>
         similar (face_heap t ! f) \<noteq> None))"

text \<open>No confirmation was made: persons are as before, new faces are unconfirmed.\<close>

definition links :: "FLDB \<Rightarrow> FLDB \<Rightarrow> bool" where
  "links s t =
     (person_heap t = person_heap s \<and> length (face_heap s) \<le> length (face_heap t) \<and>
      (\<forall>f<length (face_heap t).
         person (face_heap t ! f) =
           (if f < length (face_heap s) then person (face_heap s ! f) else None)))"

text \<open>
  The two sides of a confirmation agree: the person of a face lists the face, and, with
  \<open>once\<close>, a face listed by a person is confirmed to that person.
\<close>

definition confirmed_inv :: "bool \<Rightarrow> FLDB \<Rightarrow> bool" where
  "confirmed_inv once s =
     ((\<forall>f<length (face_heap s). \<forall>p. person (face_heap s ! f) = Some p \<longrightarrow>
         p < length (person_heap s) \<and> f \<in> set (p_faces (person_heap s ! p))) \<and>
      (once \<longrightarrow> (\<forall>p<length (person_heap s). \<forall>f\<in>set (p_faces (person_heap s ! p)).
         f < length (face_heap s) \<and> person (face_heap s ! f) = Some p)))"

section \<open>A recognition backend and states for examples\<close>

text \<open>
  The records of the backend: a face, a record of a detection, a match of a search, and
  an entry of the listing that carries both keys that \<open>list_faces\<close> reads.
\<close>

definition face_rec :: "string \<Rightarrow> string \<Rightarrow> pyval" where
  "face_rec i u = PDict [(''FaceId'', PStr i), (''ExternalImageId'', PStr u)]"

definition face_record :: "string \<Rightarrow> string \<Rightarrow> pyval" where
  "face_record i u = PDict [(''Face'', face_rec i u)]"

definition face_match :: "string \<Rightarrow> string \<Rightarrow> real \<Rightarrow> pyval" where
  "face_match i u r = PDict [(''Face'', face_rec i u), (''Similarity'', PNum r)]"

definition listed :: "string \<Rightarrow> string \<Rightarrow> pyval" where
  "listed i u =
     PDict [(''FaceId'', PStr i), (''ExternalImageId'', PStr u), (''Face'', face_rec i u)]"

text \<open>
  A backend with four images. Each of \<^verbatim>\<open>a.jpg\<close>, \<^verbatim>\<open>b.jpg\<close>, \<^verbatim>\<open>c.jpg\<close> and \<^verbatim>\<open>d.jpg\<close>
  shows one face (A, B, C, D), \<^verbatim>\<open>none.jpg\<close> shows none. C is similar to A by 80 and to B
  by 60; D is similar to no face.
\<close>

definition rk_demo :: rekog where
  "rk_demo hist req =
    (if req = IndexFacesReq (PStr ''a.jpg'') then
       Inr (PDict [(''FaceRecords'', PList [face_record ''A'' ''a.jpg''])])
     else if req = IndexFacesReq (PStr ''b.jpg'') then
       Inr (PDict [(''FaceRecords'', PList [face_record ''B'' ''b.jpg''])])
     else if req = IndexFacesReq (PStr ''c.jpg'') then
       Inr (PDict [(''FaceRecords'', PList [face_record ''C'' ''c.jpg''])])
     else if req = IndexFacesReq (PStr ''d.jpg'') then
       Inr (PDict [(''FaceRecords'', PList [face_record ''D'' ''d.jpg''])])
     else if req = IndexFacesReq (PStr ''none.jpg'') then
       Inr (PDict [(''FaceRecords'', PList [])])
     else if req = SearchFacesReq (PStr ''A'') then
       Inr (PDict [(''FaceMatches'', PList [face_match ''C'' ''c.jpg'' 80])])
     else if req = SearchFacesReq (PStr ''B'') then
       Inr (PDict [(''FaceMatches'', PList [face_match ''C'' ''c.jpg'' 60])])
     else if req = SearchFacesReq (PStr ''C'') then
       Inr (PDict [(''FaceMatches'',
         PList [face_match ''A'' ''a.jpg'' 80, face_match ''B'' ''b.jpg'' 60])])
     else if req = SearchFacesReq (PStr ''D'') then
       Inr (PDict [(''FaceMatches'', PList [])])
     else Inl ClientError)"

text \<open>
  A backend that lists three faces on two pages, the first page answering the request
  without a token. \<open>rk_pages\<close> answers with the bare list of the page's entries,
  \<open>rk_pages_aws\<close> with a dict that holds the faces and the token of the next page.
\<close>

definition rk_pages :: rekog where
  "rk_pages hist req =
    (if req = ListFacesReq None then
       Inr (PList [listed ''F1'' ''a.jpg'', listed ''F2'' ''a.jpg''])
     else if req = ListFacesReq (Some (PStr ''page2'')) then
       Inr (PList [listed ''F3'' ''b.jpg''])
     else Inl ClientError)"

definition rk_pages_aws :: rekog where
  "rk_pages_aws hist req =
    (if req = ListFacesReq None then
       Inr (PDict [(''Faces'', PList [face_rec ''F1'' ''a.jpg'', face_rec ''F2'' ''a.jpg'']),
                   (''NextToken'', PStr ''page2'')])
     else if req = ListFacesReq (Some (PStr ''page2'')) then
       Inr (PDict [(''Faces'', PList [face_rec ''F3'' ''b.jpg''])])
     else Inl ClientError)"

definition face_obj :: "string \<Rightarrow> string \<Rightarrow> image_ref \<Rightarrow> person_ref option \<Rightarrow> Face" where
  "face_obj i u im p =
     \<lparr>fid = PStr i, fulldata = face_record i u, f_image = im, similar = None, person = p\<rparr>"

text \<open>The state after \<^verbatim>\<open>add_image('a.jpg')\<close> on a new database.\<close>

definition s_a :: FLDB where
  "s_a = \<lparr>persons = [], images = [(PStr ''a.jpg'', 0)], faces = [(PStr ''A'', 0)],
     face_heap = [face_obj ''A'' ''a.jpg'' 0 None],
     image_heap = [\<lparr>url = PStr ''a.jpg'', i_faces = Some [0]\<rparr>],
     person_heap = [], rekog_calls = [IndexFacesReq (PStr ''a.jpg'')]\<rparr>"

text \<open>
  The state after the three images with the faces A, B and C were added, the person P
  was registered, and A and B were confirmed to P. The faces are the objects 0, 1 and 2,
  P is the person 0.
\<close>

definition s_abc :: FLDB where
  "s_abc = \<lparr>persons = [(''P'', 0)],
     images = [(PStr ''a.jpg'', 0), (PStr ''b.jpg'', 1), (PStr ''c.jpg'', 2)],
     faces = [(PStr ''A'', 0), (PStr ''B'', 1), (PStr ''C'', 2)],
     face_heap = [face_obj ''A'' ''a.jpg'' 0 (Some 0), face_obj ''B'' ''b.jpg'' 1 (Some 0),
                  face_obj ''C'' ''c.jpg'' 2 None],
     image_heap = [\<lparr>url = PStr ''a.jpg'', i_faces = Some [0]\<rparr>,
                   \<lparr>url = PStr ''b.jpg'', i_faces = Some [1]\<rparr>,
                   \<lparr>url = PStr ''c.jpg'', i_faces = Some [2]\<rparr>],
     person_heap = [\<lparr>name = ''P'', p_faces = [0, 1]\<rparr>],
     rekog_calls = [IndexFacesReq (PStr ''a.jpg''), IndexFacesReq (PStr ''b.jpg''),
                    IndexFacesReq (PStr ''c.jpg'')]\<rparr>"

text \<open>The same, after a second person Q was registered and C was confirmed to Q.\<close>

definition s_abcq :: FLDB where
  "s_abcq = s_abc\<lparr>persons := [(''P'', 0), (''Q'', 1)],
     face_heap := [face_obj ''A'' ''a.jpg'' 0 (Some 0), face_obj ''B'' ''b.jpg'' 1 (Some 0),
                   face_obj ''C'' ''c.jpg'' 2 (Some 1)],
     person_heap := [\<lparr>name = ''P'', p_faces = [0, 1]\<rparr>, \<lparr>name = ''Q'', p_faces = [2]\<rparr>]\<rparr>"

text \<open>The state after \<^verbatim>\<open>add_image('none.jpg', index=False)\<close> on a new database.\<close>

definition s_none :: FLDB where
  "s_none = \<lparr>persons = [], images = [(PStr ''none.jpg'', 0)], faces = [], face_heap = [],
     image_heap = [\<lparr>url = PStr ''none.jpg'', i_faces = None\<rparr>],
     person_heap = [], rekog_calls = []\<rparr>"

text \<open>The state after \<^verbatim>\<open>add_image('d.jpg')\<close> on a new database.\<close>

definition s_d :: FLDB where
  "s_d = \<lparr>persons = [], images = [(PStr ''d.jpg'', 0)], faces = [(PStr ''D'', 0)],
     face_heap = [face_obj ''D'' ''d.jpg'' 0 None],
     image_heap = [\<lparr>url = PStr ''d.jpg'', i_faces = Some [0]\<rparr>],
     person_heap = [], rekog_calls = [IndexFacesReq (PStr ''d.jpg'')]\<rparr>"

text \<open>
  The state after \<^verbatim>\<open>add_image('a.jpg')\<close>, \<^verbatim>\<open>add_person('P')\<close> and the confirmation
  of the face A to P.
\<close>

definition s_ap :: FLDB where
  "s_ap = s_a\<lparr>persons := [(''P'', 0)], face_heap := [face_obj ''A'' ''a.jpg'' 0 (Some 0)],
     person_heap := [\<lparr>name = ''P'', p_faces = [0]\<rparr>]\<rparr>"

text \<open>
  The state after \<^verbatim>\<open>add_image('a.jpg')\<close>, \<^verbatim>\<open>add_person('P')\<close>, \<^verbatim>\<open>add_person('Q')\<close>
  and the confirmation of the face A first to P and then to Q.
\<close>

definition s_apq :: FLDB where
  "s_apq = s_a\<lparr>persons := [(''P'', 0), (''Q'', 1)],
     face_heap := [face_obj ''A'' ''a.jpg'' 0 (Some 1)],
     person_heap := [\<lparr>name = ''P'', p_faces = [0]\<rparr>, \<lparr>name = ''Q'', p_faces = [0]\<rparr>]\<rparr>"

section \<open>Basic lemmas\<close>

lemma add_image_unindexed_eq: "add_image rk u False = add_image_unindexed u"
  by (simp add: add_image_def add_image_unindexed_def mbind_def ret_def fun_eq_iff
      split: prod.splits sum.splits)

subsection \<open>Running a computation\<close>

lemma ret_app [simp]: "ret x s = (Inr x, s)"
  by (simp add: ret_def)

lemma raise_app [simp]: "raise e s = (Inl e, s)"
  by (simp add: raise_def)

lemma lift_app [simp]: "lift r s = (r, s)"
  by (simp add: lift_def)

lemma gets_app [simp]: "gets g s = (Inr (g s), s)"
  by (simp add: gets_def)

lemma modify_app [simp]: "modify g s = (Inr (), g s)"
  by (simp add: modify_def)

lemma mbind_ret [simp]: "mbind (ret x) f s = f x s"
  by (simp add: mbind_def)

lemma mbind_raise [simp]: "mbind (raise e) f s = (Inl e, s)"
  by (simp add: mbind_def)

lemma mbind_gets [simp]: "mbind (gets g) f s = f (g s) s"
  by (simp add: mbind_def)

lemma mbind_modify [simp]: "mbind (modify g) f s = f () (g s)"
  by (simp add: mbind_def)

lemma mbind_lift_Inr [simp]: "mbind (lift (Inr x)) f s = f x s"
  by (simp add: mbind_def)

lemma mbind_lift_Inl [simp]: "mbind (lift (Inl e)) f s = (Inl e, s)"
  by (simp add: mbind_def)

lemma mbind_call_rekog [simp]:
  "mbind (call_rekog rk req) f s =
     (case rk (rekog_calls s) req of
        Inl e \<Rightarrow> (Inl e, s\<lparr>rekog_calls := rekog_calls s @ [req]\<rparr>)
      | Inr v \<Rightarrow> f v (s\<lparr>rekog_calls := rekog_calls s @ [req]\<rparr>))"
  by (simp add: mbind_def call_rekog_def split: sum.splits)

lemma mbind_Person_init [simp]:
  "mbind (Person_init nm) f s =
     f (length (person_heap s)) (s\<lparr>person_heap := person_heap s @ [\<lparr>name = nm, p_faces = []\<rparr>]\<rparr>)"
  by (simp add: mbind_def Person_init_def)

lemma mbind_Image_init [simp]:
  "mbind (Image_init u) f s =
     f (length (image_heap s)) (s\<lparr>image_heap := image_heap s @ [\<lparr>url = u, i_faces = None\<rparr>]\<rparr>)"
  by (simp add: mbind_def Image_init_def)

lemma mbind_Face_new [simp]:
  "mbind (Face_new obj) f s = f (length (face_heap s)) (s\<lparr>face_heap := face_heap s @ [obj]\<rparr>)"
  by (simp add: mbind_def Face_new_def)

lemma mbind_assoc: "mbind (mbind m f) g = mbind m (\<lambda>x. mbind (f x) g)"
  by (auto simp: mbind_def fun_eq_iff split: prod.splits sum.splits)

lemma mbind_Inr: "m s = (Inr x, s') \<Longrightarrow> mbind m f s = f x s'"
  by (simp add: mbind_def)

lemma mbind_Inl: "m s = (Inl e, s') \<Longrightarrow> mbind m f s = (Inl e, s')"
  by (simp add: mbind_def)

text \<open>The definitions of the methods, for evaluating them on a given state.\<close>

lemmas exec_defs =
  add_person_def get_person_def add_image_unindexed_def get_image_def Face_init_def
  index_faces_inner_def index_faces_def set_i_faces_def Image_get_faces_def by_fid_def
  add_image_def get_face_def list_faces_def search_faces_inner_def search_faces_def
  set_similar_def Face_get_similar_def Face_set_person_inner_def Person_add_face_inner_def
  Face_set_person_def Face_persom_def Face_get_person_def Person_add_face_def
  tuple_person_def tuple_fid_def guess_faces_def Person_get_faces_def py_assert_def
  key_in_def dict_contains_def dict_getitem_def dict_setitem_def dict_update_def
  dict_values_def dict_keys_def hash_key_def sorted_reverse_def mbind_assoc

section \<open>What the methods leave unchanged\<close>

lemma preservesD: "preserves R m \<Longrightarrow> R s (snd (m s))"
  by (simp add: preserves_def)

lemma preserves_ret: "stable R \<Longrightarrow> preserves R (ret x)"
  by (simp add: preserves_def stable_def)

lemma preserves_raise: "stable R \<Longrightarrow> preserves R (raise e)"
  by (simp add: preserves_def stable_def)

lemma preserves_lift: "stable R \<Longrightarrow> preserves R (lift r)"
  by (simp add: preserves_def stable_def)

lemma preserves_gets: "stable R \<Longrightarrow> preserves R (gets g)"
  by (simp add: preserves_def stable_def)

lemma preserves_py_assert: "stable R \<Longrightarrow> preserves R (py_assert b)"
  by (simp add: py_assert_def preserves_ret preserves_raise)

lemma preserves_mbind:
  assumes "stable R" and m: "preserves R m" and f: "\<And>x. preserves R (f x)"
  shows "preserves R (mbind m f)"
  unfolding preserves_def
proof
  fix s
  obtain r s1 where ms: "m s = (r, s1)" by (cases "m s")
  from m have 1: "R s s1" using ms by (metis preservesD snd_conv)
  show "R s (snd (mbind m f s))"
  proof (cases r)
    case (Inl e)
    with ms 1 show ?thesis by (simp add: mbind_def)
  next
    case (Inr x)
    from f have "R s1 (snd (f x s1))" by (rule preservesD)
    with 1 assms(1) have "R s (snd (f x s1))" unfolding stable_def by blast
    with ms Inr show ?thesis by (simp add: mbind_def)
  qed
qed

lemma preserves_if: "preserves R a \<Longrightarrow> preserves R b \<Longrightarrow> preserves R (if c then a else b)"
  by simp

lemma preserves_case_option:
  "preserves R a \<Longrightarrow> (\<And>x. preserves R (b x)) \<Longrightarrow> preserves R (case v of None \<Rightarrow> a | Some x \<Rightarrow> b x)"
  by (cases v) simp_all

lemma preserves_case_list:
  "preserves R a \<Longrightarrow> (\<And>x xs. preserves R (b x xs)) \<Longrightarrow>
   preserves R (case v of [] \<Rightarrow> a | x # xs \<Rightarrow> b x xs)"
  by (cases v) simp_all

lemma preserves_mapM:
  "stable R \<Longrightarrow> (\<And>x. preserves R (f x)) \<Longrightarrow> preserves R (mapM f xs)"
  by (induction xs) (simp_all add: preserves_ret preserves_mbind)

lemma preserves_filter_mapM:
  "stable R \<Longrightarrow> (\<And>x. preserves R (c x)) \<Longrightarrow> (\<And>x. preserves R (f x)) \<Longrightarrow>
   preserves R (filter_mapM c f xs)"
  by (induction xs) (simp_all add: preserves_ret preserves_mbind)

lemma preserves_foldM:
  "stable R \<Longrightarrow> (\<And>x a. preserves R (f x a)) \<Longrightarrow> preserves R (foldM f xs acc)"
  by (induction xs arbitrary: acc) (simp_all add: preserves_ret preserves_mbind)

lemmas preserves_intros =
  preserves_mbind preserves_ret preserves_raise preserves_lift preserves_gets
  preserves_py_assert preserves_if preserves_case_option preserves_case_list
  preserves_mapM preserves_filter_mapM preserves_foldM

lemma quiet_stable: "quiet_frame R \<Longrightarrow> stable R"
  by (simp add: quiet_frame_def)

lemma frame_quiet: "frame R \<Longrightarrow> quiet_frame R"
  by (simp add: frame_def)

lemma quiet_Image_init: "quiet_frame R \<Longrightarrow> preserves R (Image_init u)"
  by (simp add: preserves_def Image_init_def quiet_frame_def)

lemma quiet_Face_new:
  "quiet_frame R \<Longrightarrow> similar obj = None \<Longrightarrow> person obj = None \<Longrightarrow> preserves R (Face_new obj)"
  by (simp add: preserves_def Face_new_def quiet_frame_def)

lemma quiet_set_images: "quiet_frame R \<Longrightarrow> preserves R (modify (\<lambda>s. s\<lparr>images := g s\<rparr>))"
  by (simp add: preserves_def quiet_frame_def)

lemma quiet_set_faces: "quiet_frame R \<Longrightarrow> preserves R (modify (\<lambda>s. s\<lparr>faces := g s\<rparr>))"
  by (simp add: preserves_def quiet_frame_def)

lemma quiet_set_i_faces: "quiet_frame R \<Longrightarrow> preserves R (set_i_faces i fs)"
  by (simp add: preserves_def set_i_faces_def quiet_frame_def)

lemma quiet_set_similar: "quiet_frame R \<Longrightarrow> preserves R (set_similar f xs)"
  by (simp add: preserves_def set_similar_def quiet_frame_def)

lemma frame_call_rekog: "frame R \<Longrightarrow> preserves R (call_rekog rk req)"
  by (simp add: preserves_def call_rekog_def frame_def)

lemmas quiet_intros =
  quiet_Image_init quiet_Face_new quiet_set_images quiet_set_faces quiet_set_i_faces
  quiet_set_similar

lemma quiet_add_image_unindexed: "quiet_frame R \<Longrightarrow> preserves R (add_image_unindexed u)"
  unfolding add_image_unindexed_def
  by (intro preserves_intros quiet_intros quiet_stable) 

lemma quiet_get_image: "quiet_frame R \<Longrightarrow> preserves R (get_image u c)"
  unfolding get_image_def
  by (intro preserves_intros quiet_intros quiet_stable quiet_add_image_unindexed)

lemma quiet_Face_init: "quiet_frame R \<Longrightarrow> preserves R (Face_init fd img)"
  unfolding Face_init_def
  by (intro preserves_intros quiet_intros quiet_stable quiet_get_image) simp_all

lemma quiet_get_face: "quiet_frame R \<Longrightarrow> preserves R (get_face k d c)"
  unfolding get_face_def
  by (intro preserves_intros quiet_intros quiet_stable quiet_Face_init)

lemma quiet_by_fid: "quiet_frame R \<Longrightarrow> preserves R (by_fid v fs)"
  unfolding by_fid_def
  by (intro preserves_intros quiet_stable)

lemma frame_index_faces: "frame R \<Longrightarrow> preserves R (index_faces rk i)"
  unfolding index_faces_def index_faces_inner_def
  by (intro preserves_intros frame_call_rekog quiet_Face_init quiet_stable frame_quiet)

lemma frame_Image_get_faces: "frame R \<Longrightarrow> preserves R (Image_get_faces rk i)"
  unfolding Image_get_faces_def
  by (intro preserves_intros frame_index_faces quiet_intros quiet_stable frame_quiet)

lemma frame_add_image: "frame R \<Longrightarrow> preserves R (add_image rk u ix)"
  unfolding add_image_def
  by (intro preserves_intros frame_Image_get_faces quiet_by_fid quiet_intros quiet_stable frame_quiet)

lemma frame_list_faces: "frame R \<Longrightarrow> preserves R (list_faces rk rf)"
  unfolding list_faces_def
  by (intro preserves_intros frame_call_rekog quiet_Face_init quiet_intros quiet_stable frame_quiet)

lemma frame_search_faces: "frame R \<Longrightarrow> preserves R (search_faces rk f)"
  unfolding search_faces_def search_faces_inner_def
  by (intro preserves_intros frame_call_rekog quiet_get_face quiet_stable frame_quiet)

lemma frame_Face_get_similar: "frame R \<Longrightarrow> preserves R (Face_get_similar rk f rf)"
  unfolding Face_get_similar_def
  by (intro preserves_intros frame_search_faces quiet_intros quiet_stable frame_quiet)

lemma frame_Face_get_person: "frame R \<Longrightarrow> preserves R (Face_get_person rk f)"
  unfolding Face_get_person_def Face_persom_def
  by (intro preserves_intros frame_Face_get_similar quiet_stable frame_quiet)

lemma frame_guess_faces: "frame R \<Longrightarrow> preserves R (guess_faces rk p g rf)"
  unfolding guess_faces_def tuple_person_def tuple_fid_def
  by (intro preserves_intros frame_Face_get_similar quiet_stable frame_quiet)

lemma frame_Person_get_faces: "frame R \<Longrightarrow> preserves R (Person_get_faces rk p g rf)"
  unfolding Person_get_faces_def
  by (intro preserves_intros frame_guess_faces quiet_by_fid quiet_stable frame_quiet)

lemma frame_create_all: "frame R \<Longrightarrow> preserves R (create_all rk)"
  unfolding create_all_def
  by (intro preserves_intros frame_call_rekog quiet_stable frame_quiet)

lemma frame_delete_all: "frame R \<Longrightarrow> preserves R (delete_all rk)"
  unfolding delete_all_def
  by (intro preserves_intros frame_call_rekog quiet_stable frame_quiet)

lemma similar_upd_similar:
  "g < length h \<Longrightarrow>
   similar (h[f := (h ! f)\<lparr>similar := v\<rparr>] ! g) = (if g = f then v else similar (h ! g))"
  by (simp add: nth_list_update)

lemma person_upd_similar: "person (h[f := (h ! f)\<lparr>similar := v\<rparr>] ! g) = person (h ! g)"
  by (cases "f < length h") (simp_all add: nth_list_update list_update_beyond not_less)

lemma similar_upd_person: "similar (h[f := (h ! f)\<lparr>person := v\<rparr>] ! g) = similar (h ! g)"
  by (cases "f < length h") (simp_all add: nth_list_update list_update_beyond not_less)

lemma person_upd_person:
  "g < length h \<Longrightarrow>
   person (h[f := (h ! f)\<lparr>person := v\<rparr>] ! g) = (if g = f then v else person (h ! g))"
  by (simp add: nth_list_update)

lemma quiet_no_call: "quiet_frame no_call"
  by (simp add: quiet_frame_def stable_def no_call_def)

lemma frame_keeps: "frame keeps"
  by (auto simp: frame_def quiet_frame_def stable_def keeps_def nth_append similar_upd_similar)

lemma frame_links: "frame links"
  unfolding frame_def quiet_frame_def stable_def links_def
  by (auto simp: nth_append person_upd_similar)

text \<open>A method that calls the backend first and never again makes exactly that call.\<close>

lemma calls_after_call:
  assumes "\<And>resp. preserves no_call (f resp)"
  shows "rekog_calls (snd (mbind (call_rekog rk req) f s)) = rekog_calls s @ [req]"
proof (cases "rk (rekog_calls s) req")
  case (Inl e)
  then show ?thesis by simp
next
  case (Inr resp)
  from assms [of resp]
  have "rekog_calls (snd (f resp (s\<lparr>rekog_calls := rekog_calls s @ [req]\<rparr>))) =
      rekog_calls s @ [req]"
    unfolding preserves_def no_call_def by simp
  with Inr show ?thesis by simp
qed

lemma search_faces_calls:
  "rekog_calls (snd (search_faces rk f s)) =
     rekog_calls s @ [SearchFacesReq (fid (face_heap s ! f))]"
  unfolding search_faces_def search_faces_inner_def mbind_assoc mbind_gets
  by (rule calls_after_call)
    (intro preserves_intros quiet_get_face quiet_stable quiet_no_call)

lemma list_faces_calls:
  "rekog_calls (snd (list_faces rk True s)) = rekog_calls s @ [ListFacesReq None]"
  unfolding list_faces_def if_True mbind_assoc
  by (rule calls_after_call)
    (intro preserves_intros quiet_Face_init quiet_intros quiet_stable quiet_no_call)

lemma keeps_person_ops:
  "keeps s (snd (add_person nm s))" "keeps s (snd (get_person nm c s))"
  "keeps s (snd (Face_set_person f p s))" "keeps s (snd (Person_add_face p f s))"
  by (simp_all add: keeps_def add_person_def get_person_def py_assert_def
      Face_set_person_def Person_add_face_def Face_set_person_inner_def
      Person_add_face_inner_def similar_upd_person split: option.splits)

lemma step_keeps: "keeps s (step rk op s)"
proof (cases op)
  case (GetImage u c)
  then show ?thesis
    using preservesD [OF quiet_get_image [OF frame_quiet [OF frame_keeps]]] by simp
next
  case (GetFace k d c)
  then show ?thesis
    using preservesD [OF quiet_get_face [OF frame_quiet [OF frame_keeps]]] by simp
qed (simp_all add: keeps_person_ops list_images_def list_persons_def Face_get_image_def
      preservesD [OF frame_add_image [OF frame_keeps]]
      preservesD [OF frame_list_faces [OF frame_keeps]]
      preservesD [OF frame_create_all [OF frame_keeps]]
      preservesD [OF frame_delete_all [OF frame_keeps]]
      preservesD [OF frame_index_faces [OF frame_keeps]]
      preservesD [OF frame_search_faces [OF frame_keeps]]
      preservesD [OF frame_Image_get_faces [OF frame_keeps]]
      preservesD [OF frame_Face_get_similar [OF frame_keeps]]
      preservesD [OF frame_Face_get_person [OF frame_keeps]]
      preservesD [OF frame_Person_get_faces [OF frame_keeps]], simp_all add: keeps_def)

lemma keeps_trans: "keeps s t \<Longrightarrow> keeps t u \<Longrightarrow> keeps s u"
  using frame_keeps unfolding frame_def quiet_frame_def stable_def by blast

lemma keeps_refl: "keeps s s"
  by (simp add: keeps_def)

lemma steps_keeps: "keeps s (steps rk ops s)"
  unfolding steps_def
proof (induction ops arbitrary: s)
  case Nil
  show ?case by (simp add: keeps_refl)
next
  case (Cons a ops)
  from step_keeps Cons.IH show ?case
    by (simp, blast intro: keeps_trans)
qed

lemma get_similar_hit:
  "similar (face_heap s ! f) = Some xs \<Longrightarrow> Face_get_similar rk f False s = (Inr xs, s)"
  by (simp add: Face_get_similar_def)

section \<open>The two sides of a confirmation\<close>

lemma Face_set_person_confirm: "Face_set_person f p s = (Inr (), confirm f p s)"
  by (simp add: Face_set_person_def Face_set_person_inner_def Person_add_face_inner_def
      confirm_def)

lemma Person_add_face_confirm: "Person_add_face p f s = (Inr (), confirm f p s)"
  by (simp add: Person_add_face_def Face_set_person_inner_def Person_add_face_inner_def
      confirm_def)

lemma invD1:
  "confirmed_inv once s \<Longrightarrow> f < length (face_heap s) \<Longrightarrow>
   person (face_heap s ! f) = Some p \<Longrightarrow>
   p < length (person_heap s) \<and> f \<in> set (p_faces (person_heap s ! p))"
  unfolding confirmed_inv_def by blast

lemma invD2:
  "confirmed_inv once s \<Longrightarrow> once \<Longrightarrow> p < length (person_heap s) \<Longrightarrow>
   f \<in> set (p_faces (person_heap s ! p)) \<Longrightarrow>
   f < length (face_heap s) \<and> person (face_heap s ! f) = Some p"
  unfolding confirmed_inv_def by blast

lemma links_inv:
  assumes inv: "confirmed_inv once s" and l: "links s t"
  shows "confirmed_inv once t"
proof -
  from l have ph: "person_heap t = person_heap s"
    and len: "length (face_heap s) \<le> length (face_heap t)"
    and pe: "\<And>f. f < length (face_heap t) \<Longrightarrow> person (face_heap t ! f) =
           (if f < length (face_heap s) then person (face_heap s ! f) else None)"
    by (simp_all add: links_def)
  have a: "p < length (person_heap t) \<and> f \<in> set (p_faces (person_heap t ! p))"
    if "f < length (face_heap t)" "person (face_heap t ! f) = Some p" for f p
  proof -
    from that pe [of f] have "f < length (face_heap s)" "person (face_heap s ! f) = Some p"
      by (auto split: if_splits)
    from invD1 [OF inv this] ph show ?thesis by simp
  qed
  have b: "f < length (face_heap t) \<and> person (face_heap t ! f) = Some p"
    if "once" "p < length (person_heap t)" "f \<in> set (p_faces (person_heap t ! p))" for f p
  proof -
    from that ph have "p < length (person_heap s)" "f \<in> set (p_faces (person_heap s ! p))"
      by simp_all
    from invD2 [OF inv \<open>once\<close> this]
    have "f < length (face_heap s)" "person (face_heap s ! f) = Some p" by simp_all
    with len pe [of f] show ?thesis by simp
  qed
  from a b show ?thesis unfolding confirmed_inv_def by blast
qed

lemma inv_new_person:
  assumes "confirmed_inv once s"
  shows "confirmed_inv once (s\<lparr>person_heap := person_heap s @ [\<lparr>name = nm, p_faces = []\<rparr>],
            persons := d\<rparr>)"
proof -
  let ?t = "s\<lparr>person_heap := person_heap s @ [\<lparr>name = nm, p_faces = []\<rparr>], persons := d\<rparr>"
  have a: "p < length (person_heap ?t) \<and> f \<in> set (p_faces (person_heap ?t ! p))"
    if "f < length (face_heap ?t)" "person (face_heap ?t ! f) = Some p" for f p
  proof -
    from that have "f < length (face_heap s)" "person (face_heap s ! f) = Some p"
      by simp_all
    from invD1 [OF assms this] show ?thesis by (simp add: nth_append)
  qed
  have b: "f < length (face_heap ?t) \<and> person (face_heap ?t ! f) = Some p"
    if "once" and p: "p < length (person_heap ?t)"
      and f: "f \<in> set (p_faces (person_heap ?t ! p))" for f p
  proof (cases "p < length (person_heap s)")
    case True
    with f have "f \<in> set (p_faces (person_heap s ! p))" by (simp add: nth_append)
    from invD2 [OF assms \<open>once\<close> True this] show ?thesis by simp
  next
    case False
    with p have "p = length (person_heap s)" by simp
    with f show ?thesis by simp
  qed
  from a b show ?thesis unfolding confirmed_inv_def by blast
qed

lemma inv_add_person: "confirmed_inv once s \<Longrightarrow> confirmed_inv once (snd (add_person nm s))"
  by (simp add: add_person_def py_assert_def inv_new_person)

lemma inv_get_person: "confirmed_inv once s \<Longrightarrow> confirmed_inv once (snd (get_person nm c s))"
  by (simp add: get_person_def inv_add_person split: option.splits)

lemma inv_confirm:
  assumes inv: "confirmed_inv once s"
    and f: "f < length (face_heap s)" and p: "p < length (person_heap s)"
    and ok: "once \<longrightarrow> person (face_heap s ! f) \<in> {None, Some p}"
  shows "confirmed_inv once (confirm f p s)"
proof -
  let ?t = "confirm f p s"
  have fh: "length (face_heap ?t) = length (face_heap s)"
    and ph: "length (person_heap ?t) = length (person_heap s)"
    by (simp_all add: confirm_def)
  have pers: "person (face_heap ?t ! g) = (if g = f then Some p else person (face_heap s ! g))"
    if "g < length (face_heap s)" for g
    using that by (simp add: confirm_def person_upd_person)
  have fcs: "p_faces (person_heap ?t ! q) =
      (if q = p then p_faces (person_heap s ! p) @ [f] else p_faces (person_heap s ! q))"
    if "q < length (person_heap s)" for q
    using that by (simp add: confirm_def nth_list_update)
  have a: "q < length (person_heap ?t) \<and> g \<in> set (p_faces (person_heap ?t ! q))"
    if g: "g < length (face_heap ?t)" and gq: "person (face_heap ?t ! g) = Some q" for g q
  proof (cases "g = f")
    case True
    with g gq pers [of g] fh have "q = p" by simp
    with True p ph fcs [of p] show ?thesis by simp
  next
    case False
    with g gq pers [of g] fh have "person (face_heap s ! g) = Some q" by simp
    moreover from g fh have "g < length (face_heap s)" by simp
    ultimately have q: "q < length (person_heap s)" "g \<in> set (p_faces (person_heap s ! q))"
      using invD1 [OF inv] by blast+
    from q fcs [of q] have "g \<in> set (p_faces (person_heap ?t ! q))"
      by (cases "q = p") simp_all
    with q ph show ?thesis by simp
  qed
  have b: "g < length (face_heap ?t) \<and> person (face_heap ?t ! g) = Some q"
    if "once" and q: "q < length (person_heap ?t)"
      and g: "g \<in> set (p_faces (person_heap ?t ! q))" for g q
  proof (cases "g = f")
    case True
    have "q = p"
    proof (rule ccontr)
      assume "q \<noteq> p"
      with q g ph fcs [of q] True have "f \<in> set (p_faces (person_heap s ! q))" by simp
      moreover from q ph have "q < length (person_heap s)" by simp
      ultimately have "person (face_heap s ! f) = Some q"
        using invD2 [OF inv \<open>once\<close>] by blast
      with ok \<open>once\<close> \<open>q \<noteq> p\<close> show False by simp
    qed
    with True f fh pers [of f] show ?thesis by simp
  next
    case False
    with q g ph fcs [of q] have "g \<in> set (p_faces (person_heap s ! q))"
      by (auto split: if_splits)
    moreover from q ph have "q < length (person_heap s)" by simp
    ultimately have "g < length (face_heap s)" "person (face_heap s ! g) = Some q"
      using invD2 [OF inv \<open>once\<close>] by blast+
    with False fh pers [of g] show ?thesis by simp
  qed
  from a b show ?thesis unfolding confirmed_inv_def by blast
qed

lemma links_refl: "links s s"
  by (simp add: links_def)

lemma step_inv:
  assumes inv: "confirmed_inv once s" and ok: "op_ok once s op"
  shows "confirmed_inv once (step rk op s)"
proof (cases op)
  case (AddPerson nm)
  with inv show ?thesis by (simp add: inv_add_person)
next
  case (GetPerson nm c)
  with inv show ?thesis by (simp add: inv_get_person)
next
  case (FaceSetPerson f p)
  with inv ok show ?thesis by (simp add: Face_set_person_confirm inv_confirm)
next
  case (PersonAddFace p f)
  with inv ok show ?thesis by (simp add: Person_add_face_confirm inv_confirm)
next
  case (GetImage u c)
  then show ?thesis
    using links_inv [OF inv preservesD [OF quiet_get_image [OF frame_quiet [OF frame_links]]]]
    by simp
next
  case (GetFace k d c)
  then show ?thesis
    using links_inv [OF inv preservesD [OF quiet_get_face [OF frame_quiet [OF frame_links]]]]
    by simp
next
  case (AddImage u ix)
  then show ?thesis
    using links_inv [OF inv preservesD [OF frame_add_image [OF frame_links]]] by simp
next
  case (ListFaces rf)
  then show ?thesis
    using links_inv [OF inv preservesD [OF frame_list_faces [OF frame_links]]] by simp
next
  case ListImages
  with inv show ?thesis by (simp add: list_images_def)
next
  case ListPersons
  with inv show ?thesis by (simp add: list_persons_def)
next
  case CreateAll
  then show ?thesis
    using links_inv [OF inv preservesD [OF frame_create_all [OF frame_links]]] by simp
next
  case DeleteAll
  then show ?thesis
    using links_inv [OF inv preservesD [OF frame_delete_all [OF frame_links]]] by simp
next
  case (IndexFaces i)
  then show ?thesis
    using links_inv [OF inv preservesD [OF frame_index_faces [OF frame_links]]] by simp
next
  case (SearchFaces f)
  then show ?thesis
    using links_inv [OF inv preservesD [OF frame_search_faces [OF frame_links]]] by simp
next
  case (ImageGetFaces i)
  then show ?thesis
    using links_inv [OF inv preservesD [OF frame_Image_get_faces [OF frame_links]]] by simp
next
  case (FaceGetSimilar f rf)
  then show ?thesis
    using links_inv [OF inv preservesD [OF frame_Face_get_similar [OF frame_links]]] by simp
next
  case (FaceGetImage f)
  with inv show ?thesis by (simp add: Face_get_image_def)
next
  case (FaceGetPerson f)
  then show ?thesis
    using links_inv [OF inv preservesD [OF frame_Face_get_person [OF frame_links]]] by simp
next
  case (PersonGetFaces p g rf)
  then show ?thesis
    using links_inv [OF inv preservesD [OF frame_Person_get_faces [OF frame_links]]] by simp
qed

lemma reachable_inv: "reachable rk once s \<Longrightarrow> confirmed_inv once s"
proof (induction rule: reachable.induct)
  case init
  show ?case by (simp add: confirmed_inv_def FLDB_init_def)
next
  case (step s op)
  then show ?case by (simp add: step_inv)
qed

section \<open>The order of the result of \<open>Person_get_faces\<close>\<close>

lemma sorted_reverse_desc: "sorted_wrt (\<lambda>a b. snd b \<le> snd a) (sorted_reverse vs)"
proof -
  have "sorted (map (\<lambda>x. - snd x) (sort_key (\<lambda>x. - snd x) vs))"
    by (rule sorted_sort_key)
  then show ?thesis
    by (simp add: sorted_reverse_def sorted_map)
qed

lemma Person_get_faces_sorted_reverse:
  assumes "Person_get_faces rk p guess refresh s = (Inr res, s1)"
  shows "\<exists>vs. res = sorted_reverse vs"
proof -
  obtain r1 t1 where g: "guess_faces rk p guess refresh s = (r1, t1)"
    by (cases "guess_faces rk p guess refresh s")
  show ?thesis
  proof (cases r1)
    case (Inl e)
    with assms g show ?thesis by (simp add: Person_get_faces_def mbind_def)
  next
    case (Inr d)
    obtain r2 t2 where k: "by_fid (\<lambda>x. (x, 1::real)) (p_faces (person_heap t1 ! p)) t1 = (r2, t2)"
      by (cases "by_fid (\<lambda>x. (x, 1::real)) (p_faces (person_heap t1 ! p)) t1")
    from assms g Inr k show ?thesis
      by (cases r2) (auto simp: Person_get_faces_def mbind_def)
  qed
qed

lemma get_faces_none_confirmed:
  "p_faces (person_heap s ! p) = [] \<Longrightarrow> Person_get_faces rk p guess refresh s = (Inr [], s)"
  by (simp add: Person_get_faces_def guess_faces_def by_fid_def dict_values_def dict_update_def
      sorted_reverse_def mbind_assoc)

section \<open>The example states are reached\<close>

lemmas demo_defs = rk_demo_def face_rec_def face_record_def face_match_def face_obj_def

lemma s_a_reached: "add_image rk_demo (PStr ''a.jpg'') True FLDB_init = (Inr 0, s_a)"
  by (simp add: exec_defs FLDB_init_def demo_defs s_a_def)

lemma s_abc_reached:
  "mbind (add_image rk_demo (PStr ''b.jpg'') True) (\<lambda>_.
   mbind (add_image rk_demo (PStr ''c.jpg'') True) (\<lambda>_.
   mbind (add_person ''P'') (\<lambda>p.
   mbind (Face_set_person 0 p) (\<lambda>_.
   Face_set_person 1 p)))) s_a = (Inr (), s_abc)"
  by (simp add: exec_defs demo_defs s_a_def s_abc_def)

lemma s_abcq_reached:
  "mbind (add_person ''Q'') (\<lambda>q. Face_set_person 2 q) s_abc = (Inr (), s_abcq)"
  by (simp add: exec_defs demo_defs s_abc_def s_abcq_def)

lemma s_none_reached: "add_image rk_demo (PStr ''none.jpg'') False FLDB_init = (Inr 0, s_none)"
  by (simp add: exec_defs FLDB_init_def s_none_def)

lemma s_d_reached: "add_image rk_demo (PStr ''d.jpg'') True FLDB_init = (Inr 0, s_d)"
  by (simp add: exec_defs FLDB_init_def demo_defs s_d_def)

lemma reachable_steps:
  "reachable rk once s \<Longrightarrow> ops_ok rk once s xs \<Longrightarrow> reachable rk once (steps rk xs s)"
  unfolding steps_def
  by (induction xs arbitrary: s) (simp_all add: reachable.step)

lemma s_ap_reached:
  "steps rk_demo [AddImage (PStr ''a.jpg'') True, AddPerson ''P'', FaceSetPerson 0 0]
     FLDB_init = s_ap \<and>
   ops_ok rk_demo True FLDB_init
     [AddImage (PStr ''a.jpg'') True, AddPerson ''P'', FaceSetPerson 0 0]"
  by (simp add: steps_def s_a_reached)
    (simp add: exec_defs demo_defs s_a_def s_ap_def)

lemma s_apq_reached:
  "steps rk_demo [AddImage (PStr ''a.jpg'') True, AddPerson ''P'', AddPerson ''Q'',
      FaceSetPerson 0 0, FaceSetPerson 0 1] FLDB_init = s_apq \<and>
   ops_ok rk_demo False FLDB_init
     [AddImage (PStr ''a.jpg'') True, AddPerson ''P'', AddPerson ''Q'',
      FaceSetPerson 0 0, FaceSetPerson 0 1]"
  by (simp add: steps_def s_a_reached)
    (simp add: exec_defs demo_defs s_a_def s_apq_def)

section \<open>The claims\<close>

subsection \<open>Ranking the faces of a person\<close>

text \<open>
  Claim C1. A person with exactly two confirmed faces A and B and an unconfirmed face C
  that is similar to A by 0.8 and to B by 0.6 is to get C back from
  \<open>Person_get_faces\<close> (with \<open>guess\<close>) at the score (0.8 + 0.6) / 2 = 0.7. The state
  \<open>s_abc\<close> is this situation: the person 0 has the confirmed faces 0 and 1, the face 2 is
  unconfirmed, and the searches for the faces 0 and 1 yield the face 2 at 0.8 and 0.6.
  There the method returns no list: it raises \<open>AttributeError\<close>, because the filter of
  line 166 reads the attribute \<^verbatim>\<open>person\<close> of a tuple.
\<close>

theorem get_faces_aggregation_raises:
  "p_faces (person_heap s_abc ! 0) = [0, 1] \<and>
   person (face_heap s_abc ! 2) = None \<and>
   fst (search_faces rk_demo 0 s_abc) = Inr [(2, 0.8)] \<and>
   fst (search_faces rk_demo 1 s_abc) = Inr [(2, 0.6)] \<and>
   fst (Person_get_faces rk_demo 0 True False s_abc) = Inl AttributeError"
  by (simp add: exec_defs demo_defs s_abc_def)




subsection \<open>Listing the faces of the collection\<close>

text \<open>
  Claim C4. \<open>list_faces\<close> with \<open>refresh\<close> is to collect all pages of the backend's
  listing, so that a listing of two pages with 2 and 1 faces yields 3 keys. In every
  state and for every backend the method makes exactly one call, without a page token
  (line 60 leaves the token to be done). Against \<open>rk_pages\<close>, whose second page holds
  the face F3, it returns the 2 keys of the first page; against \<open>rk_pages_aws\<close>, whose
  response is a dict, it raises \<open>TypeError\<close>, since it iterates over the keys of that
  dict.
\<close>

theorem list_faces_reads_one_page:
  "rekog_calls (snd (list_faces rk True s)) = rekog_calls s @ [ListFacesReq None] \<and>
   rk_pages [ListFacesReq None] (ListFacesReq (Some (PStr ''page2''))) =
     Inr (PList [listed ''F3'' ''b.jpg'']) \<and>
   fst (list_faces rk_pages True FLDB_init) = Inr [PStr ''F1'', PStr ''F2''] \<and>
   list_faces rk_pages_aws True FLDB_init =
     (Inl TypeError, FLDB_init\<lparr>rekog_calls := [ListFacesReq None]\<rparr>)"
proof -
  have "fst (list_faces rk_pages True FLDB_init) = Inr [PStr ''F1'', PStr ''F2'']"
    by (simp add: exec_defs listed_def rk_pages_def face_rec_def FLDB_init_def)
  moreover have "list_faces rk_pages_aws True FLDB_init =
     (Inl TypeError, FLDB_init\<lparr>rekog_calls := [ListFacesReq None]\<rparr>)"
    by (simp add: exec_defs rk_pages_aws_def face_rec_def FLDB_init_def)
  moreover have "rk_pages [ListFacesReq None] (ListFacesReq (Some (PStr ''page2''))) =
     Inr (PList [listed ''F3'' ''b.jpg''])"
    by (simp add: rk_pages_def)
  ultimately show ?thesis using list_faces_calls by blast
qed

subsection \<open>The person of a face\<close>

text \<open>
  Claim C5. \<open>Face_get_person\<close> on a confirmed face returns the one pair of its person
  and 1; on an unconfirmed face it is to return the persons and similarities of the
  similar faces that are confirmed. The first half holds: in \<open>s_abc\<close> the face 0 yields
  the person 0 at 1. The second does not: the face 2 is unconfirmed and similar to the
  faces 0 and 1, which are confirmed to the person 0, and the method raises
  \<open>AttributeError\<close> instead of returning that person at 0.8 and 0.6, because the
  condition of line 147 reads \<^verbatim>\<open>persom\<close>.
\<close>

theorem get_person_unconfirmed_raises:
  "Face_get_person rk_demo 0 s_abc = (Inr [(Some 0, 1)], s_abc) \<and>
   person (face_heap s_abc ! 2) = None \<and>
   person (face_heap s_abc ! 0) = Some 0 \<and> person (face_heap s_abc ! 1) = Some 0 \<and>
   fst (Face_get_similar rk_demo 2 False s_abc) = Inr [(0, 0.8), (1, 0.6)] \<and>
   fst (Face_get_person rk_demo 2 s_abc) = Inl AttributeError"
  by (simp add: exec_defs demo_defs s_abc_def)

subsection \<open>The faces of an image\<close>

text \<open>
  Claim C6. \<open>Image_get_faces\<close> is to ask the backend once in the life of an image, also
  when no face was detected. For the image \<^verbatim>\<open>none.jpg\<close>, in which the backend detects no
  face, both of two calls return the empty list, and each of them asks the backend: the
  test of line 108 takes the empty list that was stored for a missing one.
\<close>

theorem image_get_faces_empty_detects_again:
  "rekog_calls s_none = [] \<and>
   fst (Image_get_faces rk_demo 0 s_none) = Inr [] \<and>
   i_faces (image_heap (snd (Image_get_faces rk_demo 0 s_none)) ! 0) = Some [] \<and>
   fst (Image_get_faces rk_demo 0 (snd (Image_get_faces rk_demo 0 s_none))) = Inr [] \<and>
   rekog_calls (snd (Image_get_faces rk_demo 0 (snd (Image_get_faces rk_demo 0 s_none)))) =
     [IndexFacesReq (PStr ''none.jpg''), IndexFacesReq (PStr ''none.jpg'')]"
  by (simp add: exec_defs demo_defs s_none_def)

subsection \<open>Confirming a face\<close>

text \<open>
  Claim C7, as stated: in every reachable state a face is confirmed to a person if and
  only if the person lists the face. This fails after a face was confirmed to a second
  person: in \<open>s_apq\<close> the face 0 was confirmed to the person 0 and then to the person 1;
  the person 0 still lists it, but it is confirmed to the person 1.
\<close>

theorem reconfirmation_breaks_lockstep:
  "reachable rk_demo False s_apq \<and>
   0 < length (face_heap s_apq) \<and> 0 < length (person_heap s_apq) \<and>
   0 \<in> set (p_faces (person_heap s_apq ! 0)) \<and>
   person (face_heap s_apq ! 0) \<noteq> Some 0"
proof -
  from reachable_steps [OF reachable.init, of rk_demo False] s_apq_reached
  have "reachable rk_demo False s_apq" by metis
  then show ?thesis by (simp add: s_apq_def s_a_def face_obj_def)
qed

text \<open>
  Claim C7, amended. In every state reached by the operations, the person that a face is
  confirmed to lists that face; the converse holds in the states reached without
  confirming a face to a second, different person. A confirmation is one step from
  either side: \<open>Face_set_person\<close> and \<open>Person_add_face\<close> are the same transition, which
  raises nothing and applies both sides.
\<close>

theorem confirmation_lockstep:
  assumes "reachable rk once s" and "f < length (face_heap s)" and "p < length (person_heap s)"
  shows "(person (face_heap s ! f) = Some p \<longrightarrow> f \<in> set (p_faces (person_heap s ! p))) \<and>
         (once \<longrightarrow> f \<in> set (p_faces (person_heap s ! p)) \<longrightarrow>
            person (face_heap s ! f) = Some p) \<and>
         Face_set_person f p s = Person_add_face p f s \<and>
         fst (Face_set_person f p s) = Inr () \<and>
         person (face_heap (snd (Face_set_person f p s)) ! f) = Some p \<and>
         f \<in> set (p_faces (person_heap (snd (Face_set_person f p s)) ! p))"
proof -
  note inv = reachable_inv [OF assms(1)]
  from invD1 [OF inv assms(2)] invD2 [OF inv _ assms(3)]
  have "person (face_heap s ! f) = Some p \<longrightarrow> f \<in> set (p_faces (person_heap s ! p))"
    and "once \<longrightarrow> f \<in> set (p_faces (person_heap s ! p)) \<longrightarrow>
            person (face_heap s ! f) = Some p"
    by blast+
  moreover have "Face_set_person f p s = Person_add_face p f s"
    by (simp add: Face_set_person_confirm Person_add_face_confirm)
  moreover have "fst (Face_set_person f p s) = Inr ()"
    by (simp add: Face_set_person_confirm)
  moreover have "snd (Face_set_person f p s) = confirm f p s"
    by (simp add: Face_set_person_confirm)
  moreover from assms(2,3)
  have "person (face_heap (confirm f p s) ! f) = Some p"
    and "f \<in> set (p_faces (person_heap (confirm f p s) ! p))"
    by (simp_all add: confirm_def)
  ultimately show ?thesis by presburger
qed

theorem confirmation_lockstep_witness:
  "reachable rk_demo True s_ap \<and>
   0 < length (face_heap s_ap) \<and> 0 < length (person_heap s_ap) \<and>
   person (face_heap s_ap ! 0) = Some 0 \<and>
   0 \<in> set (p_faces (person_heap s_ap ! 0)) \<and>
   Face_set_person 0 0 s_ap = Person_add_face 0 0 s_ap \<and>
   fst (Face_set_person 0 0 s_ap) = Inr ()"
proof -
  from reachable_steps [OF reachable.init, of rk_demo True] s_ap_reached
  have r: "reachable rk_demo True s_ap" by metis
  have f: "0 < length (face_heap s_ap)" and p: "0 < length (person_heap s_ap)"
    and c: "person (face_heap s_ap ! 0) = Some 0"
    by (simp_all add: s_ap_def s_a_def face_obj_def)
  from confirmation_lockstep [OF r f p] c
  have "0 \<in> set (p_faces (person_heap s_ap ! 0))"
    and "Face_set_person 0 0 s_ap = Person_add_face 0 0 s_ap"
    and "fst (Face_set_person 0 0 s_ap) = Inr ()"
    by blast+
  with r f p c show ?thesis by blast
qed

subsection \<open>Registering persons\<close>




subsection \<open>Searching similar faces\<close>

text \<open>
  Claim C9. \<open>search_faces\<close> is to return, for every match of the backend, the matched
  face and its similarity divided by 100, and to find or create the matched face with
  \<open>get_face\<close>. For a matched face that is registered it does: in \<open>s_abc\<close> the match of C
  at 80 becomes the face 2 at 0.8. It cannot create a face: in \<open>s_a\<close> only the face A is
  registered, the backend matches the face C, and \<open>get_face\<close> passes the face record of
  the match to \<open>Face_init\<close>, which looks for the key \<^verbatim>\<open>Face\<close> in it and raises
  \<open>KeyError\<close>.
\<close>

theorem search_faces_unknown_match_raises:
  "fst (search_faces rk_demo 0 s_abc) = Inr [(2, 80 / 100)] \<and>
   dict_keys (faces s_a) = [PStr ''A''] \<and>
   rk_demo (rekog_calls s_a) (SearchFacesReq (PStr ''A'')) =
     Inr (PDict [(''FaceMatches'', PList [face_match ''C'' ''c.jpg'' 80])]) \<and>
   fst (Face_init (face_rec ''C'' ''c.jpg'') None s_a) = Inl KeyError \<and>
   fst (search_faces rk_demo 0 s_a) = Inl KeyError"
  by (simp add: exec_defs demo_defs s_a_def s_abc_def)



end
